theory Spec2Isabelle
  imports Main
begin

section \<open>The modal overlay controller of \<^verbatim>\<open>ui/src/modal.ts\<close>\<close>

subsection \<open>Data model\<close>

text \<open>
  \<^verbatim>\<open>type OnHide = () => void\<close>. The store keeps a reference to a function object. A
  reference is either the module's own constant \<^verbatim>\<open>doNothing\<close> or a function supplied by a
  caller, named by a number; what a supplied function does when it is called is looked up
  in an environment (see \<open>callbacks\<close> below).
\<close>

datatype OnHide = doNothing | Fn nat

text \<open>
  \<^verbatim>\<open>type ModalOverlay = { show: true; route: string; onHide: OnHide } | { show: false }\<close>
\<close>

datatype ModalOverlay = Shown string OnHide | Hidden

text \<open>
  Modelled from the spec: the reactive store of \<^verbatim>\<open>svelte/store\<close>, which is imported by
  \<^verbatim>\<open>modal.ts\<close> and is not part of the sources. Following section 4.1 of the specification a
  store has a current value and an ordered collection of subscriber callbacks. A
  subscriber callback is named by a number and is represented by what it is called with:
  \<open>delivered\<close> lists, oldest first, every invocation of a subscriber together with the
  value passed to it.
\<close>

record 'a reactive_store =
  current :: 'a
  subscribers :: "nat list"
  delivered :: "(nat \<times> 'a) list"

text \<open>Modelled from the spec: \<^verbatim>\<open>writable(value)\<close> creates a store without subscribers.\<close>

definition writable :: "'a \<Rightarrow> 'a reactive_store" where
  "writable v = \<lparr>current = v, subscribers = [], delivered = []\<rparr>"

text \<open>
  Modelled from the spec: \<^verbatim>\<open>set(value)\<close> replaces the current value and invokes every
  registered subscriber with the new value, in registration order.
\<close>

definition store_set :: "'a \<Rightarrow> 'a reactive_store \<Rightarrow> 'a reactive_store" where
  "store_set v s =
     s\<lparr>current := v, delivered := delivered s @ map (\<lambda>k. (k, v)) (subscribers s)\<rparr>"

text \<open>Modelled from the spec: \<^verbatim>\<open>get()\<close> returns the current value without subscribing.\<close>

definition store_get :: "'a reactive_store \<Rightarrow> 'a" where
  "store_get s = current s"

text \<open>
  Modelled from the spec: \<^verbatim>\<open>subscribe(callback)\<close> registers the callback and immediately
  invokes it once with the current value.
\<close>

definition subscribe :: "nat \<Rightarrow> 'a reactive_store \<Rightarrow> 'a reactive_store" where
  "subscribe k s =
     s\<lparr>subscribers := subscribers s @ [k], delivered := delivered s @ [(k, current s)]\<rparr>"

text \<open>
  Modelled from the spec: \<^verbatim>\<open>derive(sourceStore, projectionFn)\<close> is a read-only store whose
  value is always the projection of the source's value and whose subscribers are notified,
  with the projected value, whenever the source notifies. It is a view of the source: it
  is computed from the source whenever it is read.
\<close>

definition derived :: "'a reactive_store \<Rightarrow> ('a \<Rightarrow> 'b) \<Rightarrow> 'b reactive_store" where
  "derived src fn =
     \<lparr>current = fn (store_get src),
      subscribers = subscribers src,
      delivered = map (\<lambda>(k, v). (k, fn v)) (delivered src)\<rparr>"

text \<open>
  The effects of the module: an \<^verbatim>\<open>onHide\<close> function is called, the store is assigned.
\<close>

datatype event = OnHideCalled OnHide | StoreSet ModalOverlay

fun onHide_calls :: "event list \<Rightarrow> OnHide list" where
  "onHide_calls [] = []"
| "onHide_calls (OnHideCalled f # es) = f # onHide_calls es"
| "onHide_calls (StoreSet v # es) = onHide_calls es"

text \<open>
  The state the module works on: the module-level constant \<^verbatim>\<open>overlayStore\<close> and, in
  \<open>ext\<close>, everything else a callback may read or change. The field \<open>history\<close> is not
  a variable of the program: it lists, oldest first, the effects of the module that have
  happened so far, whoever made the call of \<^verbatim>\<open>toggle\<close> or \<^verbatim>\<open>hide\<close> that had them.
\<close>

record 'e world =
  overlayStore :: "ModalOverlay reactive_store"
  ext :: 'e
  history :: "event list"

definition logged :: "event \<Rightarrow> 'e world \<Rightarrow> 'e world" where
  "logged e w = w\<lparr>history := history w @ [e]\<rparr>"

text \<open>The effects that happened between a state and a later one.\<close>

definition during :: "'e world \<Rightarrow> 'e world \<Rightarrow> event list" where
  "during w w' = drop (length (history w)) (history w')"

text \<open>How often the function \<open>f\<close> has been called as an \<^verbatim>\<open>onHide\<close> so far.\<close>

definition calls :: "OnHide \<Rightarrow> 'e world \<Rightarrow> nat" where
  "calls f w = count_list (onHide_calls (history w)) f"

text \<open>
  \<^verbatim>\<open>const overlayStore = writable<ModalOverlay>({ show: false })\<close>: the state of the module
  once it is loaded.
\<close>

definition init :: "'e \<Rightarrow> 'e world" where
  "init e = \<lparr>overlayStore = writable Hidden, ext = e, history = []\<rparr>"

text \<open>\<^verbatim>\<open>export const store = derived(overlayStore, $store => $store)\<close>\<close>

definition store :: "'e world \<Rightarrow> ModalOverlay reactive_store" where
  "store w = derived (overlayStore w) (\<lambda>s. s)"

text \<open>\<^verbatim>\<open>overlayStore.set(v)\<close>\<close>

definition overlayStore_set :: "ModalOverlay \<Rightarrow> 'e world \<Rightarrow> 'e world" where
  "overlayStore_set v w =
     logged (StoreSet v) (w\<lparr>overlayStore := store_set v (overlayStore w)\<rparr>)"

subsection \<open>Calls and outcomes\<close>

text \<open>
  A call returns normally or throws; in both cases it leaves a state behind (a JavaScript
  exception undoes nothing).
\<close>

datatype ('x, 'w) outcome = Returns 'w | Throws 'x 'w

fun after :: "('x, 'w) outcome \<Rightarrow> 'w" where
  "after (Returns w) = w"
| "after (Throws x w) = w"

fun returned :: "('x, 'w) outcome \<Rightarrow> bool" where
  "returned (Returns w) = True"
| "returned (Throws x w) = False"

text \<open>
  What the supplied functions do: function \<open>k\<close>, called in state \<open>w\<close>, returns or throws
  and leaves a state of its choice. Nothing is assumed about it: it may call \<^verbatim>\<open>toggle\<close>
  and \<^verbatim>\<open>hide\<close> itself.
\<close>

type_synonym ('x, 'e) callbacks = "nat \<Rightarrow> 'e world \<Rightarrow> ('x, 'e world) outcome"

text \<open>
  Calling an \<^verbatim>\<open>onHide\<close> function: the call is an effect, then the function runs.
  \<^verbatim>\<open>const doNothing = () => { /**/ }\<close> returns at once.
\<close>

fun invoke :: "('x, 'e) callbacks \<Rightarrow> OnHide \<Rightarrow> 'e world \<Rightarrow> ('x, 'e world) outcome" where
  "invoke env doNothing w = Returns (logged (OnHideCalled doNothing) w)"
| "invoke env (Fn k) w = env k (logged (OnHideCalled (Fn k)) w)"

subsection \<open>The operations\<close>

text \<open>
  \<^verbatim>\<open>
  export const hide = (): void => {
    const modal = get(store);
    if (modal.show) {
      modal.onHide();
    }
    overlayStore.set({ show: false });
  };
  \<close>
  When \<^verbatim>\<open>modal.onHide()\<close> throws, the exception leaves \<^verbatim>\<open>hide\<close> and the assignment is
  not reached.
\<close>

definition hide :: "('x, 'e) callbacks \<Rightarrow> 'e world \<Rightarrow> ('x, 'e world) outcome" where
  "hide env w =
     (let modal = store_get (store w) in
      case modal of
        Shown route onHide \<Rightarrow>
          (case invoke env onHide w of
             Throws x w' \<Rightarrow> Throws x w'
           | Returns w' \<Rightarrow> Returns (overlayStore_set Hidden w'))
      | Hidden \<Rightarrow> Returns (overlayStore_set Hidden w))"

text \<open>
  \<^verbatim>\<open>
  export const toggle = (route: string, onHide: OnHide = doNothing): void => {
    const modal = get(store);
    if (modal.show && modal.route === route) {
      hide();
      return;
    }
    overlayStore.set({ show: true, route, onHide });
  };
  \<close>
  The optional parameter is an \<open>option\<close>: \<open>None\<close> is a call without the argument.
\<close>

fun default_onHide :: "OnHide option \<Rightarrow> OnHide" where
  "default_onHide None = doNothing"
| "default_onHide (Some f) = f"

definition toggle ::
  "('x, 'e) callbacks \<Rightarrow> string \<Rightarrow> OnHide option \<Rightarrow> 'e world \<Rightarrow> ('x, 'e world) outcome" where
  "toggle env route arg w =
     (let onHide = default_onHide arg;
          modal = store_get (store w) in
      if (case modal of Shown r f \<Rightarrow> r = route | Hidden \<Rightarrow> False)
      then hide env w
      else Returns (overlayStore_set (Shown route onHide) w))"

subsection \<open>Sequences of calls\<close>

text \<open>
  The module exports two operations. A client is a sequence of calls of them; a call that
  throws ends the handler that made it, and the next call starts from the state it left.
\<close>

datatype call = Toggle string "OnHide option" | Hide

fun perform :: "('x, 'e) callbacks \<Rightarrow> call \<Rightarrow> 'e world \<Rightarrow> ('x, 'e world) outcome" where
  "perform env (Toggle route arg) w = toggle env route arg w"
| "perform env Hide w = hide env w"

fun run :: "('x, 'e) callbacks \<Rightarrow> call list \<Rightarrow> 'e world \<Rightarrow> 'e world" where
  "run env [] w = w"
| "run env (c # cs) w = run env cs (after (perform env c w))"

text \<open>
  The transitions of a run: for each call the overlay state before it, the call, whether
  it returned normally, and the overlay state after it.
\<close>

fun transitions ::
  "('x, 'e) callbacks \<Rightarrow> call list \<Rightarrow> 'e world \<Rightarrow>
     (ModalOverlay \<times> call \<times> bool \<times> ModalOverlay) list" where
  "transitions env [] w = []"
| "transitions env (c # cs) w =
     (let out = perform env c w in
      (store_get (overlayStore w), c, returned out, store_get (overlayStore (after out)))
        # transitions env cs (after out))"

text \<open>
  The state machine as the specification words it (section 4.2), on routes:
  \<open>Hidden --toggle(r)--> Shown(r)\<close>; \<open>Shown(r) --toggle(r)--> Hidden\<close>;
  \<open>Shown(r) --toggle(r')--> Shown(r')\<close> for \<open>r' \<noteq> r\<close>; \<open>Shown(r) --hide--> Hidden\<close>;
  \<open>Hidden --hide--> Hidden\<close>.
\<close>

fun shows_route :: "ModalOverlay \<Rightarrow> string \<Rightarrow> bool" where
  "shows_route (Shown r f) r' = (r = r')"
| "shows_route Hidden r' = False"

fun spec_edge :: "ModalOverlay \<Rightarrow> call \<Rightarrow> ModalOverlay \<Rightarrow> bool" where
  "spec_edge Hidden (Toggle r arg) s' = shows_route s' r"
| "spec_edge (Shown r f) (Toggle r' arg) s' =
     (if r' = r then s' = Hidden else shows_route s' r')"
| "spec_edge (Shown r f) Hide s' = (s' = Hidden)"
| "spec_edge Hidden Hide s' = (s' = Hidden)"

subsection \<open>Example clients\<close>

text \<open>
  The clients keep a counter \<^verbatim>\<open>n\<close>, the \<open>ext\<close> of the state. In \<open>quiet\<close> every supplied
  function returns at once. In \<open>counting\<close> function 0 throws and every other function
  is \<^verbatim>\<open>() => { n++; }\<close>.
\<close>

definition quiet :: "(string, nat) callbacks" where
  "quiet k w = Returns w"

definition counting :: "(string, nat) callbacks" where
  "counting k w = (if k = 0 then Throws ''boom'' w else Returns (w\<lparr>ext := Suc (ext w)\<rparr>))"

text \<open>
  The supplied functions of the examples:
  \<^item> function 0 is \<^verbatim>\<open>() => { throw "boom"; }\<close>;
  \<^item> function 1 is \<^verbatim>\<open>() => { toggle("help"); }\<close>;
  \<^item> function 3 is \<^verbatim>\<open>() => { n++; if (n === 1) hide(); }\<close>;
  \<^item> function 4 is \<^verbatim>\<open>() => { toggle("help"); throw "boom"; }\<close>;
  \<^item> every other function is \<^verbatim>\<open>() => { n++; }\<close>.

  The calls that functions 1 and 4 make open an overlay and call no function. The call
  of \<^verbatim>\<open>hide\<close> that function 3 makes when \<^verbatim>\<open>n\<close> has become 1 can only call functions
  in a state where \<^verbatim>\<open>n\<close> is 1, where function 3 does what it does in \<open>counting\<close>.
\<close>

definition example_callbacks :: "(string, nat) callbacks" where
  "example_callbacks k w =
     (if k = 1 then toggle quiet ''help'' None w
      else if k = 3 then
        (if ext w = 0 then hide counting (w\<lparr>ext := 1\<rparr>)
         else Returns (w\<lparr>ext := Suc (ext w)\<rparr>))
      else if k = 4 then Throws ''boom'' (after (toggle quiet ''help'' None w))
      else counting k w)"

text \<open>
  The state after \<^verbatim>\<open>toggle("settings", f)\<close> on the freshly loaded module, with the
  counter at 0.
\<close>

definition settings_open :: "OnHide \<Rightarrow> nat world" where
  "settings_open f = run quiet [Toggle ''settings'' (Some f)] (init 0)"

text \<open>A client that takes every edge of the state machine.\<close>

definition example_calls :: "call list" where
  "example_calls =
     [Toggle ''settings'' (Some (Fn 2)), Toggle ''help'' None, Toggle ''help'' None, Hide,
      Toggle ''settings'' None, Hide]"

section \<open>Properties\<close>

subsection \<open>Reading and writing the store\<close>

lemma store_read [simp]: "store_get (store w) = current (overlayStore w)"
  by (simp add: store_def derived_def store_get_def)

lemma overlayStore_logged [simp]: "overlayStore (logged e w) = overlayStore w"
  by (simp add: logged_def)

lemma ext_logged [simp]: "ext (logged e w) = ext w"
  by (simp add: logged_def)

lemma history_logged [simp]: "history (logged e w) = history w @ [e]"
  by (simp add: logged_def)

lemma current_overlayStore_set [simp]: "current (overlayStore (overlayStore_set v w)) = v"
  by (simp add: overlayStore_set_def store_set_def)

lemma ext_overlayStore_set [simp]: "ext (overlayStore_set v w) = ext w"
  by (simp add: overlayStore_set_def)

lemma subscribers_overlayStore_set [simp]:
  "subscribers (overlayStore (overlayStore_set v w)) = subscribers (overlayStore w)"
  by (simp add: overlayStore_set_def store_set_def)

lemma history_overlayStore_set [simp]:
  "history (overlayStore_set v w) = history w @ [StoreSet v]"
  by (simp add: overlayStore_set_def)

lemma onHide_calls_append [simp]:
  "onHide_calls (es @ es') = onHide_calls es @ onHide_calls es'"
  by (induction es rule: onHide_calls.induct) simp_all

lemma during_overlayStore_set [simp]: "during w (overlayStore_set v w) = [StoreSet v]"
  by (simp add: during_def)

lemma calls_overlayStore_set [simp]: "calls f (overlayStore_set v w) = calls f w"
  by (simp add: calls_def)

lemma calls_logged_call [simp]: "calls f (logged (OnHideCalled f) w) = Suc (calls f w)"
  by (simp add: calls_def)

subsection \<open>The branches of \<open>hide\<close> and \<open>toggle\<close>\<close>

lemma invoke_eq:
  "invoke env f w =
     (case f of
        doNothing \<Rightarrow> Returns (logged (OnHideCalled f) w)
      | Fn k \<Rightarrow> env k (logged (OnHideCalled f) w))"
  by (cases f) simp_all

lemma hide_Shown:
  "current (overlayStore w) = Shown r f \<Longrightarrow>
   hide env w =
     (case invoke env f w of
        Throws x w' \<Rightarrow> Throws x w'
      | Returns w' \<Rightarrow> Returns (overlayStore_set Hidden w'))"
  by (simp add: hide_def)

lemma hide_Shown_Returns:
  "current (overlayStore w) = Shown r f \<Longrightarrow> invoke env f w = Returns w' \<Longrightarrow>
   hide env w = Returns (overlayStore_set Hidden w')"
  by (simp add: hide_def)

lemma hide_Shown_Throws:
  "current (overlayStore w) = Shown r f \<Longrightarrow> invoke env f w = Throws x w' \<Longrightarrow>
   hide env w = Throws x w'"
  by (simp add: hide_def)

lemma hide_Hidden:
  "current (overlayStore w) = Hidden \<Longrightarrow> hide env w = Returns (overlayStore_set Hidden w)"
  by (simp add: hide_def)

lemma toggle_same:
  "current (overlayStore w) = Shown r f \<Longrightarrow> toggle env r arg w = hide env w"
  by (simp add: toggle_def)

lemma toggle_other:
  "current (overlayStore w) = Shown r2 f \<Longrightarrow> r \<noteq> r2 \<Longrightarrow>
   toggle env r arg w = Returns (overlayStore_set (Shown r (default_onHide arg)) w)"
  by (simp add: toggle_def Let_def)

lemma toggle_Hidden:
  "current (overlayStore w) = Hidden \<Longrightarrow>
   toggle env r arg w = Returns (overlayStore_set (Shown r (default_onHide arg)) w)"
  by (simp add: toggle_def Let_def)

subsection \<open>The example clients\<close>

lemma current_init [simp]: "current (overlayStore (init e)) = Hidden"
  by (simp add: init_def writable_def)

lemma settings_open_eq:
  "settings_open f = overlayStore_set (Shown ''settings'' f) (init 0)"
  by (simp add: settings_open_def toggle_Hidden)

lemma current_settings_open [simp]:
  "current (overlayStore (settings_open f)) = Shown ''settings'' f"
  by (simp add: settings_open_eq)

lemma ext_settings_open [simp]: "ext (settings_open f) = 0"
  by (simp add: settings_open_eq init_def)

text \<open>
  Function 3 is \<^verbatim>\<open>() => { n++; if (n === 1) hide(); }\<close>: the call of \<open>hide\<close> it makes is a
  call of the module with the same supplied functions.
\<close>

lemma example_callbacks_3:
  assumes "current (overlayStore w) = Shown r (Fn 3)"
  shows "example_callbacks 3 w =
    (if Suc (ext w) = 1 then hide example_callbacks (w\<lparr>ext := Suc (ext w)\<rparr>)
     else Returns (w\<lparr>ext := Suc (ext w)\<rparr>))"
proof (cases "ext w = 0")
  case True
  have "hide example_callbacks (w\<lparr>ext := 1\<rparr>) = hide counting (w\<lparr>ext := 1\<rparr>)"
    using assms
    by (simp add: hide_Shown [where r = r and f = "Fn 3"] example_callbacks_def counting_def)
  then show ?thesis
    using True by (simp add: example_callbacks_def)
next
  case False
  then show ?thesis by (simp add: example_callbacks_def)
qed

subsection \<open>Closing through \<open>toggle\<close>\<close>

text \<open>
  Claim C1, as the specification states it: in every state in which the overlay is shown
  with route \<open>r\<close>, \<open>toggle(r)\<close> ends in the hidden state and calls the stored \<open>onHide\<close>
  exactly once. It fails in two ways. With a stored function that throws,
  \<^verbatim>\<open>toggle("settings")\<close> on the open overlay \<^verbatim>\<open>"settings"\<close> calls the function, throws in
  turn and leaves the overlay shown. With the stored function
  \<^verbatim>\<open>() => { n++; if (n === 1) hide(); }\<close>, which returns normally, the function is called
  twice during the one call of \<^verbatim>\<open>toggle("settings")\<close> and the counter ends at 2: the
  store is not yet cleared when the function calls \<open>hide\<close>.
\<close>

theorem toggle_same_route_throwing_counterexample:
  "current (overlayStore (settings_open (Fn 0))) = Shown ''settings'' (Fn 0)
   \<and> toggle example_callbacks ''settings'' None (settings_open (Fn 0))
       = Throws ''boom'' (logged (OnHideCalled (Fn 0)) (settings_open (Fn 0)))
   \<and> current (overlayStore
         (after (toggle example_callbacks ''settings'' None (settings_open (Fn 0)))))
       \<noteq> Hidden
   \<and> current (overlayStore (settings_open (Fn 3))) = Shown ''settings'' (Fn 3)
   \<and> returned (toggle example_callbacks ''settings'' None (settings_open (Fn 3)))
   \<and> during (settings_open (Fn 3))
        (after (toggle example_callbacks ''settings'' None (settings_open (Fn 3))))
       = [OnHideCalled (Fn 3), OnHideCalled (Fn 3), StoreSet Hidden, StoreSet Hidden]
   \<and> ext (after (toggle example_callbacks ''settings'' None (settings_open (Fn 3)))) = 2"
  by code_simp

text \<open>
  Claim C1, amended: in every state in which the overlay is shown with route \<open>r\<close>,
  \<open>toggle(r)\<close> does exactly what \<open>hide()\<close> does, which calls the stored \<open>onHide\<close> and
  runs it in the state in which the overlay is still shown. When the stored \<open>onHide\<close> returns
  normally, \<open>toggle(r)\<close> returns, its last effect is the assignment of the hidden state,
  made after the function has returned, and the resulting state is hidden; the stored
  function has then been called exactly once since the call began if and only if no call
  of it happened during its own run (as a call of \<open>hide\<close> or \<open>toggle\<close> made by the
  function can cause).
\<close>

theorem toggle_same_route:
  assumes "current (overlayStore w) = Shown r f"
  shows "toggle env r arg w = hide env w
    \<and> invoke env f w =
        (case f of
           doNothing \<Rightarrow> Returns (logged (OnHideCalled f) w)
         | Fn k \<Rightarrow> env k (logged (OnHideCalled f) w))
    \<and> (invoke env f w = Returns w' \<longrightarrow>
         toggle env r arg w = Returns (overlayStore_set Hidden w')
         \<and> history (after (toggle env r arg w)) = history w' @ [StoreSet Hidden]
         \<and> current (overlayStore (after (toggle env r arg w))) = Hidden
         \<and> (calls f (after (toggle env r arg w)) = Suc (calls f w)
              \<longleftrightarrow> calls f w' = calls f (logged (OnHideCalled f) w)))"
proof -
  have same: "toggle env r arg w = hide env w"
    using assms by (rule toggle_same)
  have run: "invoke env f w =
      (case f of
         doNothing \<Rightarrow> Returns (logged (OnHideCalled f) w)
       | Fn k \<Rightarrow> env k (logged (OnHideCalled f) w))"
    by (rule invoke_eq)
  have "hide env w = Returns (overlayStore_set Hidden w')"
    if "invoke env f w = Returns w'"
    using assms that by (rule hide_Shown_Returns)
  then have closed: "invoke env f w = Returns w' \<longrightarrow>
      toggle env r arg w = Returns (overlayStore_set Hidden w')
      \<and> history (after (toggle env r arg w)) = history w' @ [StoreSet Hidden]
      \<and> current (overlayStore (after (toggle env r arg w))) = Hidden
      \<and> (calls f (after (toggle env r arg w)) = Suc (calls f w)
           \<longleftrightarrow> calls f w' = calls f (logged (OnHideCalled f) w))"
    using same by simp
  from same run closed show ?thesis
    by (intro conjI)
qed

theorem toggle_same_route_witness:
  "toggle example_callbacks ''settings'' None (settings_open (Fn 2))
     = hide example_callbacks (settings_open (Fn 2))
   \<and> toggle example_callbacks ''settings'' None (settings_open (Fn 2))
       = Returns (overlayStore_set Hidden
           ((logged (OnHideCalled (Fn 2)) (settings_open (Fn 2)))\<lparr>ext := 1\<rparr>))
   \<and> during (settings_open (Fn 2))
        (after (toggle example_callbacks ''settings'' None (settings_open (Fn 2))))
       = [OnHideCalled (Fn 2), StoreSet Hidden]
   \<and> current (overlayStore
         (after (toggle example_callbacks ''settings'' None (settings_open (Fn 2)))))
       = Hidden
   \<and> ext (after (toggle example_callbacks ''settings'' None (settings_open (Fn 2)))) = 1
   \<and> calls (Fn 2) (after (toggle example_callbacks ''settings'' None (settings_open (Fn 2))))
       = Suc (calls (Fn 2) (settings_open (Fn 2)))"
proof -
  have shown: "current (overlayStore (settings_open (Fn 2))) = Shown ''settings'' (Fn 2)"
    by simp
  have returns: "invoke example_callbacks (Fn 2) (settings_open (Fn 2))
      = Returns ((logged (OnHideCalled (Fn 2)) (settings_open (Fn 2)))\<lparr>ext := 1\<rparr>)"
    by code_simp
  note closing = toggle_same_route [OF shown, of example_callbacks None
      "(logged (OnHideCalled (Fn 2)) (settings_open (Fn 2)))\<lparr>ext := 1\<rparr>"]
  have same: "toggle example_callbacks ''settings'' None (settings_open (Fn 2))
      = hide example_callbacks (settings_open (Fn 2))"
    using closing by (rule conjunct1)
  have result: "toggle example_callbacks ''settings'' None (settings_open (Fn 2))
      = Returns (overlayStore_set Hidden
          ((logged (OnHideCalled (Fn 2)) (settings_open (Fn 2)))\<lparr>ext := 1\<rparr>))"
    using mp [OF conjunct2 [OF conjunct2 [OF closing]] returns] by (rule conjunct1)
  have effects: "during (settings_open (Fn 2))
        (after (toggle example_callbacks ''settings'' None (settings_open (Fn 2))))
       = [OnHideCalled (Fn 2), StoreSet Hidden]"
    by code_simp
  have state: "current (overlayStore
         (after (toggle example_callbacks ''settings'' None (settings_open (Fn 2)))))
       = Hidden"
    by (simp add: result)
  have counter: "ext (after (toggle example_callbacks ''settings'' None (settings_open (Fn 2))))
      = 1"
    by (simp add: result)
  have once: "calls (Fn 2)
        (after (toggle example_callbacks ''settings'' None (settings_open (Fn 2))))
      = Suc (calls (Fn 2) (settings_open (Fn 2)))"
    by code_simp
  from same result effects state counter once show ?thesis
    by (intro conjI)
qed

subsection \<open>Replacing the overlay\<close>

text \<open>
  Claim C2: in every state in which the overlay is shown with route \<open>r2\<close>, \<open>toggle(r)\<close>
  with \<open>r \<noteq> r2\<close> ends in \<open>Shown r\<close> with the function supplied by the call (or
  \<open>doNothing\<close> when none is supplied), and calls no \<open>onHide\<close> function, the stored one
  included, whatever the stored function would do.
\<close>

theorem toggle_other_route:
  assumes "current (overlayStore w) = Shown r2 f"
    and "r \<noteq> r2"
  shows "toggle env r arg w = Returns (overlayStore_set (Shown r (default_onHide arg)) w)
    \<and> during w (after (toggle env r arg w)) = [StoreSet (Shown r (default_onHide arg))]
    \<and> onHide_calls (during w (after (toggle env r arg w))) = []
    \<and> current (overlayStore (after (toggle env r arg w))) = Shown r (default_onHide arg)"
  using assms by (simp add: toggle_other)

theorem toggle_other_route_witness:
  "toggle example_callbacks ''help'' (Some (Fn 2)) (settings_open (Fn 0))
     = Returns (overlayStore_set (Shown ''help'' (Fn 2)) (settings_open (Fn 0)))
   \<and> during (settings_open (Fn 0))
        (after (toggle example_callbacks ''help'' (Some (Fn 2)) (settings_open (Fn 0))))
       = [StoreSet (Shown ''help'' (Fn 2))]
   \<and> onHide_calls (during (settings_open (Fn 0))
        (after (toggle example_callbacks ''help'' (Some (Fn 2)) (settings_open (Fn 0))))) = []
   \<and> current (overlayStore
        (after (toggle example_callbacks ''help'' (Some (Fn 2)) (settings_open (Fn 0)))))
       = Shown ''help'' (Fn 2)"
proof -
  have shown: "current (overlayStore (settings_open (Fn 0))) = Shown ''settings'' (Fn 0)"
    by simp
  have other: "''help'' \<noteq> ''settings''"
    by simp
  show ?thesis
    using toggle_other_route [OF shown other, of example_callbacks "Some (Fn 2)"] by simp
qed

subsection \<open>Hiding\<close>

text \<open>
  Claim C3, as the specification states it: in every state in which the overlay is shown,
  \<open>hide()\<close> calls the stored \<open>onHide\<close> exactly once, before the state is cleared, and the
  resulting state is hidden. It fails in two ways. With a stored function that throws,
  \<open>hide()\<close> on the open overlay \<^verbatim>\<open>"settings"\<close> performs no assignment and the overlay
  stays shown. With the stored function \<^verbatim>\<open>() => { n++; if (n === 1) hide(); }\<close>, which
  returns normally, the one call of \<open>hide()\<close> calls the function twice (the counter ends
  at 2): the module has no flag that marks the function as consumed.
\<close>

theorem hide_throwing_counterexample:
  "current (overlayStore (settings_open (Fn 0))) = Shown ''settings'' (Fn 0)
   \<and> hide example_callbacks (settings_open (Fn 0))
       = Throws ''boom'' (logged (OnHideCalled (Fn 0)) (settings_open (Fn 0)))
   \<and> current (overlayStore (after (hide example_callbacks (settings_open (Fn 0)))))
       = Shown ''settings'' (Fn 0)
   \<and> current (overlayStore (settings_open (Fn 3))) = Shown ''settings'' (Fn 3)
   \<and> returned (hide example_callbacks (settings_open (Fn 3)))
   \<and> during (settings_open (Fn 3)) (after (hide example_callbacks (settings_open (Fn 3))))
       = [OnHideCalled (Fn 3), OnHideCalled (Fn 3), StoreSet Hidden, StoreSet Hidden]
   \<and> calls (Fn 3) (after (hide example_callbacks (settings_open (Fn 3))))
       = calls (Fn 3) (settings_open (Fn 3)) + 2
   \<and> ext (after (hide example_callbacks (settings_open (Fn 3)))) = 2"
  by code_simp

text \<open>
  Claim C3, amended: in every state in which the overlay is shown and the stored \<open>onHide\<close>
  returns normally, \<open>hide()\<close> calls the stored function in the state in which the overlay
  is still shown, assigns the store after the function has returned, as its last effect,
  and the resulting state is hidden; the stored function has then been called exactly
  once since \<open>hide()\<close> began if and only if no call of it happened during its own run (as
  a call of \<open>hide\<close> or \<open>toggle\<close> made by the function can cause).
\<close>

theorem hide_shown:
  assumes "current (overlayStore w) = Shown r f"
    and "invoke env f w = Returns w'"
  shows "invoke env f w =
        (case f of
           doNothing \<Rightarrow> Returns (logged (OnHideCalled f) w)
         | Fn k \<Rightarrow> env k (logged (OnHideCalled f) w))
    \<and> current (overlayStore (logged (OnHideCalled f) w)) = Shown r f
    \<and> hide env w = Returns (overlayStore_set Hidden w')
    \<and> history (after (hide env w)) = history w' @ [StoreSet Hidden]
    \<and> current (overlayStore (after (hide env w))) = Hidden
    \<and> (calls f (after (hide env w)) = Suc (calls f w)
         \<longleftrightarrow> calls f w' = calls f (logged (OnHideCalled f) w))"
proof -
  have "hide env w = Returns (overlayStore_set Hidden w')"
    using assms by (rule hide_Shown_Returns)
  then show ?thesis
    using assms(1) invoke_eq [of env f w] by simp
qed

theorem hide_shown_witness:
  "hide example_callbacks (settings_open (Fn 2))
     = Returns (overlayStore_set Hidden
         ((logged (OnHideCalled (Fn 2)) (settings_open (Fn 2)))\<lparr>ext := 1\<rparr>))
   \<and> during (settings_open (Fn 2)) (after (hide example_callbacks (settings_open (Fn 2))))
       = [OnHideCalled (Fn 2), StoreSet Hidden]
   \<and> current (overlayStore (after (hide example_callbacks (settings_open (Fn 2))))) = Hidden
   \<and> ext (after (hide example_callbacks (settings_open (Fn 2)))) = 1
   \<and> calls (Fn 2) (after (hide example_callbacks (settings_open (Fn 2))))
       = Suc (calls (Fn 2) (settings_open (Fn 2)))"
proof -
  have shown: "current (overlayStore (settings_open (Fn 2))) = Shown ''settings'' (Fn 2)"
    by simp
  have returns: "invoke example_callbacks (Fn 2) (settings_open (Fn 2))
      = Returns ((logged (OnHideCalled (Fn 2)) (settings_open (Fn 2)))\<lparr>ext := 1\<rparr>)"
    by code_simp
  note hiding = hide_shown [OF shown returns]
  have result: "hide example_callbacks (settings_open (Fn 2))
      = Returns (overlayStore_set Hidden
          ((logged (OnHideCalled (Fn 2)) (settings_open (Fn 2)))\<lparr>ext := 1\<rparr>))"
    using hiding by (elim conjE)
  have effects: "during (settings_open (Fn 2))
        (after (hide example_callbacks (settings_open (Fn 2))))
      = [OnHideCalled (Fn 2), StoreSet Hidden]"
    by code_simp
  have state: "current (overlayStore (after (hide example_callbacks (settings_open (Fn 2)))))
      = Hidden"
    by (simp add: result)
  have counter: "ext (after (hide example_callbacks (settings_open (Fn 2)))) = 1"
    by (simp add: result)
  have once: "calls (Fn 2) (after (hide example_callbacks (settings_open (Fn 2))))
      = Suc (calls (Fn 2) (settings_open (Fn 2)))"
    by code_simp
  from result effects state counter once show ?thesis
    by (intro conjI)
qed

text \<open>
  Claim C5: \<open>hide()\<close> in the hidden state calls no \<open>onHide\<close> function, returns normally
  and leaves the state hidden; the subscribers and everything outside the store are as
  before. The assignment of the store is still performed, so that the subscribers of the
  store are notified of the hidden state once more.
\<close>

theorem hide_hidden:
  assumes "current (overlayStore w) = Hidden"
  shows "hide env w = Returns (overlayStore_set Hidden w)
    \<and> during w (after (hide env w)) = [StoreSet Hidden]
    \<and> onHide_calls (during w (after (hide env w))) = []
    \<and> returned (hide env w)
    \<and> current (overlayStore (after (hide env w))) = Hidden
    \<and> subscribers (overlayStore (after (hide env w))) = subscribers (overlayStore w)
    \<and> ext (after (hide env w)) = ext w"
  using assms by (simp add: hide_Hidden)

theorem hide_hidden_witness:
  "hide example_callbacks (init 0) = Returns (overlayStore_set Hidden (init 0))
   \<and> during (init 0) (after (hide example_callbacks (init 0))) = [StoreSet Hidden]
   \<and> onHide_calls (during (init 0) (after (hide example_callbacks (init 0)))) = []
   \<and> returned (hide example_callbacks (init 0))
   \<and> current (overlayStore (after (hide example_callbacks (init 0)))) = Hidden
   \<and> subscribers (overlayStore (after (hide example_callbacks (init 0))))
       = subscribers (overlayStore (init (0::nat)))
   \<and> ext (after (hide example_callbacks (init 0))) = ext (init (0::nat))"
proof -
  have hidden: "current (overlayStore (init (0::nat))) = Hidden"
    by simp
  show ?thesis
    by (rule hide_hidden [OF hidden])
qed

subsection \<open>The callback and the assignment\<close>

text \<open>
  Claim C8: when the \<open>onHide\<close> function called by \<open>hide()\<close> returns normally, whatever
  state it leaves (it may have called \<open>toggle\<close> and left another overlay shown), \<open>hide()\<close>
  returns normally, its last effect is the assignment of the hidden state, made on the
  state the function left, and the state after \<open>hide()\<close> is hidden.
\<close>

theorem hide_overrides_callback:
  assumes "current (overlayStore w) = Shown r f"
    and "invoke env f w = Returns w'"
  shows "hide env w = Returns (overlayStore_set Hidden w')
    \<and> last (history (after (hide env w))) = StoreSet Hidden
    \<and> current (overlayStore (after (hide env w))) = Hidden"
  using assms by (simp add: hide_Shown_Returns)

theorem hide_overrides_callback_witness:
  "current (overlayStore (after (invoke example_callbacks (Fn 1) (settings_open (Fn 1)))))
     = Shown ''help'' doNothing
   \<and> hide example_callbacks (settings_open (Fn 1))
       = Returns (overlayStore_set Hidden
           (overlayStore_set (Shown ''help'' doNothing)
             (logged (OnHideCalled (Fn 1)) (settings_open (Fn 1)))))
   \<and> during (settings_open (Fn 1)) (after (hide example_callbacks (settings_open (Fn 1))))
       = [OnHideCalled (Fn 1), StoreSet (Shown ''help'' doNothing), StoreSet Hidden]
   \<and> last (history (after (hide example_callbacks (settings_open (Fn 1))))) = StoreSet Hidden
   \<and> current (overlayStore (after (hide example_callbacks (settings_open (Fn 1))))) = Hidden"
proof -
  have shown: "current (overlayStore (settings_open (Fn 1))) = Shown ''settings'' (Fn 1)"
    by simp
  have returns: "invoke example_callbacks (Fn 1) (settings_open (Fn 1))
      = Returns (overlayStore_set (Shown ''help'' doNothing)
          (logged (OnHideCalled (Fn 1)) (settings_open (Fn 1))))"
    by code_simp
  note hiding = hide_overrides_callback [OF shown returns]
  have reopened: "current (overlayStore
        (after (invoke example_callbacks (Fn 1) (settings_open (Fn 1)))))
      = Shown ''help'' doNothing"
    by code_simp
  have effects: "during (settings_open (Fn 1))
        (after (hide example_callbacks (settings_open (Fn 1))))
      = [OnHideCalled (Fn 1), StoreSet (Shown ''help'' doNothing), StoreSet Hidden]"
    by code_simp
  from reopened conjunct1 [OF hiding] effects
    conjunct1 [OF conjunct2 [OF hiding]] conjunct2 [OF conjunct2 [OF hiding]]
  show ?thesis
    by (intro conjI)
qed

text \<open>
  Claim C9, as stated: when the \<open>onHide\<close> function throws, the overlay remains shown with
  the same route and the same function, and a subsequent \<open>hide()\<close> calls that function
  again. It fails for a function that changes the store before it throws: with the
  stored function \<^verbatim>\<open>() => { toggle("help"); throw "boom"; }\<close> on the open overlay
  \<^verbatim>\<open>"settings"\<close>, \<open>hide()\<close> throws and leaves the overlay \<^verbatim>\<open>"help"\<close> shown with
  \<open>doNothing\<close>, and the next \<open>hide()\<close> calls \<open>doNothing\<close>, not the function.
\<close>

theorem hide_callback_throws_counterexample:
  "current (overlayStore (settings_open (Fn 4))) = Shown ''settings'' (Fn 4)
   \<and> hide example_callbacks (settings_open (Fn 4))
       = Throws ''boom'' (overlayStore_set (Shown ''help'' doNothing)
           (logged (OnHideCalled (Fn 4)) (settings_open (Fn 4))))
   \<and> current (overlayStore (after (hide example_callbacks (settings_open (Fn 4)))))
       = Shown ''help'' doNothing
   \<and> during (after (hide example_callbacks (settings_open (Fn 4))))
        (after (hide example_callbacks
          (after (hide example_callbacks (settings_open (Fn 4))))))
       = [OnHideCalled doNothing, StoreSet Hidden]"
  by code_simp

text \<open>
  Claim C9, amended: when the \<open>onHide\<close> function throws (it is then a supplied
  function), \<open>hide()\<close> throws and assigns nothing, so that the state is the one the
  function left. When the function has left the value of the store as it found it, the
  overlay is still shown with the same route and the same function, and a second
  \<open>hide()\<close> calls and runs that function again: the function is called once only when
  it returns normally.
\<close>

theorem hide_callback_throws:
  assumes "current (overlayStore w) = Shown r f"
    and "invoke env f w = Throws x w'"
  shows "hide env w = Throws x w'
    \<and> (\<exists>k. f = Fn k \<and> env k (logged (OnHideCalled f) w) = Throws x w')
    \<and> (current (overlayStore w') = current (overlayStore w) \<longrightarrow>
         current (overlayStore (after (hide env w))) = Shown r f
         \<and> hide env w' =
             (case (case f of
                      doNothing \<Rightarrow> Returns (logged (OnHideCalled f) w')
                    | Fn k \<Rightarrow> env k (logged (OnHideCalled f) w')) of
                Throws y w'' \<Rightarrow> Throws y w''
              | Returns w'' \<Rightarrow> Returns (overlayStore_set Hidden w'')))"
proof -
  have first: "hide env w = Throws x w'"
    using assms by (rule hide_Shown_Throws)
  have supplied: "\<exists>k. f = Fn k \<and> env k (logged (OnHideCalled f) w) = Throws x w'"
    using assms(2) by (cases f) simp_all
  have second: "hide env w' =
      (case (case f of
               doNothing \<Rightarrow> Returns (logged (OnHideCalled f) w')
             | Fn k \<Rightarrow> env k (logged (OnHideCalled f) w')) of
         Throws y w'' \<Rightarrow> Throws y w''
       | Returns w'' \<Rightarrow> Returns (overlayStore_set Hidden w''))"
    if "current (overlayStore w') = Shown r f"
    using that by (simp add: hide_Shown [where r = r and f = f] invoke_eq [of env f w'])
  show ?thesis
    using first supplied second assms(1) by simp
qed

theorem hide_callback_throws_witness:
  "hide example_callbacks (settings_open (Fn 0))
     = Throws ''boom'' (logged (OnHideCalled (Fn 0)) (settings_open (Fn 0)))
   \<and> current (overlayStore (after (hide example_callbacks (settings_open (Fn 0)))))
       = Shown ''settings'' (Fn 0)
   \<and> during (settings_open (Fn 0))
        (after (hide example_callbacks
          (after (hide example_callbacks (settings_open (Fn 0))))))
       = [OnHideCalled (Fn 0), OnHideCalled (Fn 0)]
   \<and> calls (Fn 0)
        (after (hide example_callbacks
          (after (hide example_callbacks (settings_open (Fn 0))))))
       = calls (Fn 0) (settings_open (Fn 0)) + 2"
proof -
  have shown: "current (overlayStore (settings_open (Fn 0))) = Shown ''settings'' (Fn 0)"
    by simp
  have throws: "invoke example_callbacks (Fn 0) (settings_open (Fn 0))
      = Throws ''boom'' (logged (OnHideCalled (Fn 0)) (settings_open (Fn 0)))"
    by code_simp
  note failed = hide_callback_throws [OF shown throws]
  have first: "hide example_callbacks (settings_open (Fn 0))
      = Throws ''boom'' (logged (OnHideCalled (Fn 0)) (settings_open (Fn 0)))"
    using failed by (rule conjunct1)
  have untouched: "current (overlayStore (logged (OnHideCalled (Fn 0)) (settings_open (Fn 0))))
      = current (overlayStore (settings_open (Fn 0)))"
    by simp
  have state: "current (overlayStore (after (hide example_callbacks (settings_open (Fn 0)))))
      = Shown ''settings'' (Fn 0)"
    using mp [OF conjunct2 [OF conjunct2 [OF failed]] untouched] by (rule conjunct1)
  have effects: "during (settings_open (Fn 0))
        (after (hide example_callbacks
          (after (hide example_callbacks (settings_open (Fn 0))))))
      = [OnHideCalled (Fn 0), OnHideCalled (Fn 0)]"
    by code_simp
  have twice: "calls (Fn 0)
        (after (hide example_callbacks
          (after (hide example_callbacks (settings_open (Fn 0))))))
      = calls (Fn 0) (settings_open (Fn 0)) + 2"
    by code_simp
  from first state effects twice show ?thesis
    by (intro conjI)
qed

text \<open>
  Claim C10: \<open>toggle(r, c2)\<close> in a state in which the overlay is shown with the same
  route \<open>r\<close> and the stored function \<open>c1\<close> is the call \<open>hide()\<close>. It calls \<open>c1\<close> and runs
  it (\<open>doNothing\<close> returns at once, a supplied function does what it does in that state);
  when \<open>c1\<close> throws the call throws with the state \<open>c1\<close> left, and when \<open>c1\<close> returns the
  call assigns the hidden state on the state \<open>c1\<close> left. The function supplied by the
  call plays no part: the result is the same for every argument, it is made of the call
  and the run of \<open>c1\<close> and of the assignment of the hidden state only.
\<close>

theorem toggle_same_route_ignores_argument:
  assumes "current (overlayStore w) = Shown r c1"
  shows "toggle env r arg w = hide env w
    \<and> toggle env r arg w = toggle env r arg' w
    \<and> toggle env r arg w =
        (case (case c1 of
                 doNothing \<Rightarrow> Returns (logged (OnHideCalled c1) w)
               | Fn k \<Rightarrow> env k (logged (OnHideCalled c1) w)) of
           Throws x w' \<Rightarrow> Throws x w'
         | Returns w' \<Rightarrow> Returns (overlayStore_set Hidden w'))"
  using assms
  by (simp add: toggle_same hide_Shown [where r = r and f = c1] invoke_eq [of env c1 w])

theorem toggle_same_route_ignores_argument_witness:
  "toggle example_callbacks ''settings'' (Some (Fn 0)) (settings_open (Fn 2))
     = hide example_callbacks (settings_open (Fn 2))
   \<and> toggle example_callbacks ''settings'' (Some (Fn 0)) (settings_open (Fn 2))
       = toggle example_callbacks ''settings'' None (settings_open (Fn 2))
   \<and> toggle example_callbacks ''settings'' (Some (Fn 0)) (settings_open (Fn 2))
       = Returns (overlayStore_set Hidden
           ((logged (OnHideCalled (Fn 2)) (settings_open (Fn 2)))\<lparr>ext := 1\<rparr>))
   \<and> during (settings_open (Fn 2))
        (after (toggle example_callbacks ''settings'' (Some (Fn 0)) (settings_open (Fn 2))))
       = [OnHideCalled (Fn 2), StoreSet Hidden]
   \<and> ext (after
        (toggle example_callbacks ''settings'' (Some (Fn 0)) (settings_open (Fn 2)))) = 1
   \<and> current (overlayStore (after
        (toggle example_callbacks ''settings'' (Some (Fn 0)) (settings_open (Fn 2)))))
       = Hidden"
proof -
  have shown: "current (overlayStore (settings_open (Fn 2))) = Shown ''settings'' (Fn 2)"
    by simp
  have run: "example_callbacks 2 (logged (OnHideCalled (Fn 2)) (settings_open (Fn 2)))
      = Returns ((logged (OnHideCalled (Fn 2)) (settings_open (Fn 2)))\<lparr>ext := 1\<rparr>)"
    by code_simp
  note closing = toggle_same_route_ignores_argument
    [OF shown, of example_callbacks "Some (Fn 0)" None]
  have same: "toggle example_callbacks ''settings'' (Some (Fn 0)) (settings_open (Fn 2))
      = hide example_callbacks (settings_open (Fn 2))"
    using closing by (rule conjunct1)
  have any: "toggle example_callbacks ''settings'' (Some (Fn 0)) (settings_open (Fn 2))
      = toggle example_callbacks ''settings'' None (settings_open (Fn 2))"
    using conjunct2 [OF closing] by (rule conjunct1)
  have result: "toggle example_callbacks ''settings'' (Some (Fn 0)) (settings_open (Fn 2))
      = Returns (overlayStore_set Hidden
          ((logged (OnHideCalled (Fn 2)) (settings_open (Fn 2)))\<lparr>ext := 1\<rparr>))"
    using conjunct2 [OF conjunct2 [OF closing]] by (simp add: run)
  have effects: "during (settings_open (Fn 2))
        (after (toggle example_callbacks ''settings'' (Some (Fn 0)) (settings_open (Fn 2))))
      = [OnHideCalled (Fn 2), StoreSet Hidden]"
    by code_simp
  have counter: "ext (after
        (toggle example_callbacks ''settings'' (Some (Fn 0)) (settings_open (Fn 2)))) = 1"
    by (simp add: result)
  have state: "current (overlayStore (after
        (toggle example_callbacks ''settings'' (Some (Fn 0)) (settings_open (Fn 2)))))
      = Hidden"
    by (simp add: result)
  from same any result effects counter state show ?thesis
    by (intro conjI)
qed

subsection \<open>The state machine\<close>

lemma invoke_returns:
  assumes "\<And>k v. returned (env k v)"
  obtains w' where "invoke env f w = Returns w'"
proof (cases f)
  case doNothing
  then show ?thesis using that by simp
next
  case (Fn k)
  have "returned (env k (logged (OnHideCalled (Fn k)) w))" by (rule assms)
  then show ?thesis
    using that Fn by (cases "env k (logged (OnHideCalled (Fn k)) w)") simp_all
qed

lemma perform_step:
  assumes "\<And>k v. returned (env k v)"
  shows "returned (perform env c w)
    \<and> spec_edge (current (overlayStore w)) c (current (overlayStore (after (perform env c w))))
    \<and> (current (overlayStore (after (perform env c w))) = Hidden
        \<or> (\<exists>r arg. c = Toggle r arg
            \<and> current (overlayStore (after (perform env c w)))
                = Shown r (default_onHide arg)))"
proof (cases "current (overlayStore w)")
  case Hidden
  then show ?thesis
    by (cases c) (simp_all add: toggle_Hidden hide_Hidden)
next
  case (Shown r f)
  obtain w' where ret: "invoke env f w = Returns w'"
    using assms by (rule invoke_returns)
  show ?thesis
  proof (cases c)
    case Hide
    then show ?thesis using Shown ret by (simp add: hide_Shown_Returns)
  next
    case (Toggle r' arg)
    show ?thesis
    proof (cases "r' = r")
      case True
      then show ?thesis using Toggle Shown ret by (simp add: toggle_same hide_Shown_Returns)
    next
      case False
      then show ?thesis using Toggle Shown by (simp add: toggle_other)
    qed
  qed
qed

text \<open>
  Claim C4, as the specification states it: for every sequence of calls, with arbitrary
  routes and callbacks, every call moves the state along an edge of the state machine. It
  fails for a callback that throws: \<open>hide()\<close> on the open overlay \<^verbatim>\<open>"settings"\<close> whose
  function throws leaves the overlay shown, and the machine has no edge from a shown
  state to a shown state under \<open>hide\<close>.
\<close>

theorem state_machine_throwing_counterexample:
  "transitions example_callbacks [Hide] (settings_open (Fn 0))
     = [(Shown ''settings'' (Fn 0), Hide, False, Shown ''settings'' (Fn 0))]
   \<and> \<not> spec_edge (Shown ''settings'' (Fn 0)) Hide (Shown ''settings'' (Fn 0))"
  by code_simp

text \<open>
  Claim C4, amended: when every supplied callback returns normally, then in every
  sequence of \<open>toggle\<close> and \<open>hide\<close> calls, from every state, each call returns
  normally and moves the overlay state along an edge of the state machine of the
  specification; the state after a call is \<open>Hidden\<close>, or it is \<open>Shown\<close> with the
  route and the function (or \<open>doNothing\<close>) of the \<open>toggle\<close> call just made, hence always
  one complete value of the two variants.
\<close>

theorem state_machine:
  assumes "\<And>k v. returned (env k v)"
  shows "map (\<lambda>(s, c, ok, s'). c) (transitions env cs w) = cs
    \<and> (\<forall>(s, c, ok, s') \<in> set (transitions env cs w).
          ok \<and> spec_edge s c s'
          \<and> (s' = Hidden \<or> (\<exists>r arg. c = Toggle r arg \<and> s' = Shown r (default_onHide arg))))"
proof (induction cs arbitrary: w)
  case Nil
  show ?case by simp
next
  case (Cons c cs)
  show ?case
    using perform_step [OF assms, where c = c and w = w]
      Cons.IH [of "after (perform env c w)"]
    by (simp add: Let_def store_get_def)
qed

theorem state_machine_witness:
  "transitions quiet example_calls (init 0)
     = [(Hidden, Toggle ''settings'' (Some (Fn 2)), True, Shown ''settings'' (Fn 2)),
        (Shown ''settings'' (Fn 2), Toggle ''help'' None, True, Shown ''help'' doNothing),
        (Shown ''help'' doNothing, Toggle ''help'' None, True, Hidden),
        (Hidden, Hide, True, Hidden),
        (Hidden, Toggle ''settings'' None, True, Shown ''settings'' doNothing),
        (Shown ''settings'' doNothing, Hide, True, Hidden)]
   \<and> map (\<lambda>(s, c, ok, s'). c) (transitions quiet example_calls (init 0)) = example_calls
   \<and> list_all (\<lambda>(s, c, ok, s'). ok \<and> spec_edge s c s')
        (transitions quiet example_calls (init 0))"
proof -
  have returns: "\<And>k v. returned (quiet k v)"
    by (simp add: quiet_def)
  have trace: "transitions quiet example_calls (init 0)
     = [(Hidden, Toggle ''settings'' (Some (Fn 2)), True, Shown ''settings'' (Fn 2)),
        (Shown ''settings'' (Fn 2), Toggle ''help'' None, True, Shown ''help'' doNothing),
        (Shown ''help'' doNothing, Toggle ''help'' None, True, Hidden),
        (Hidden, Hide, True, Hidden),
        (Hidden, Toggle ''settings'' None, True, Shown ''settings'' doNothing),
        (Shown ''settings'' doNothing, Hide, True, Hidden)]"
    by code_simp
  note machine = state_machine [of quiet example_calls "init 0", OF returns]
  have calls: "map (\<lambda>(s, c, ok, s'). c) (transitions quiet example_calls (init 0))
      = example_calls"
    using machine by (rule conjunct1)
  have edges: "list_all (\<lambda>(s, c, ok, s'). ok \<and> spec_edge s c s')
      (transitions quiet example_calls (init 0))"
    using conjunct2 [OF machine] by (auto simp add: list_all_iff)
  from trace calls edges show ?thesis
    by (intro conjI)
qed

subsection \<open>The exported store\<close>

text \<open>
  Claim C6: after every sequence of calls, the exported store is the view derived from
  \<open>overlayStore\<close> with the identity projection, and reading it gives the projection of
  the current value of \<open>overlayStore\<close>, that is the current overlay state; the same
  holds in every state whatsoever.
\<close>

theorem store_is_derived_view:
  "store (run env cs w) = derived (overlayStore (run env cs w)) (\<lambda>s. s)
   \<and> store_get (store (run env cs w)) = (\<lambda>s. s) (store_get (overlayStore (run env cs w)))
   \<and> store_get (store w) = store_get (overlayStore w)"
  by (simp add: store_def derived_def store_get_def)

subsection \<open>Subscribing\<close>

lemma subscribers_fold_store_set [simp]:
  "subscribers (fold store_set vs s) = subscribers s"
  by (induction vs arbitrary: s) (simp_all add: store_set_def)

lemma delivered_fold_store_set:
  "delivered (fold store_set vs s)
     = delivered s @ concat (map (\<lambda>v. map (\<lambda>k. (k, v)) (subscribers s)) vs)"
proof (induction vs arbitrary: s)
  case Nil
  show ?case by simp
next
  case (Cons v vs)
  have "delivered (store_set v s) = delivered s @ map (\<lambda>k. (k, v)) (subscribers s)"
    and "subscribers (store_set v s) = subscribers s"
    by (simp_all add: store_set_def)
  then show ?case
    using Cons.IH [of "store_set v s"] by simp
qed

text \<open>
  Claim C7: \<open>subscribe\<close> registers the callback last and invokes it, and nothing else,
  once with the current value; every value set afterwards is delivered after that
  invocation, to the earlier subscribers and to the new one.
\<close>

theorem subscribe_delivers_current_first:
  "subscribers (subscribe k s) = subscribers s @ [k]
   \<and> delivered (subscribe k s) = delivered s @ [(k, store_get s)]
   \<and> delivered (fold store_set vs (subscribe k s))
       = delivered s @ [(k, store_get s)]
           @ concat (map (\<lambda>v. map (\<lambda>j. (j, v)) (subscribers s @ [k])) vs)"
  by (simp add: delivered_fold_store_set) (simp add: subscribe_def store_get_def)

end
